theory Spec2Isabelle
  imports Main "HOL-Library.Multiset"
begin

section \<open>The chat server of Backend/app.js\<close>

text \<open>
  The file \<^verbatim>\<open>src/Backend/app.js\<close> holds two listings of the server, one after the other.
  The first (lines 1-238) registers the socket handlers \<^verbatim>\<open>setUsername\<close>,
  \<^verbatim>\<open>sendMessage\<close>, \<^verbatim>\<open>markAsRead\<close> and \<^verbatim>\<open>disconnect\<close>; it keeps a claimed label
  in \<^verbatim>\<open>socket.username\<close>. The second (lines 239-480) keeps the module-level map
  \<^verbatim>\<open>onlineUsers\<close> and registers \<^verbatim>\<open>setUsername\<close> and \<^verbatim>\<open>disconnect\<close> handlers that
  maintain it. The routes \<^verbatim>\<open>GET /messages\<close> and \<^verbatim>\<open>POST /messages\<close> are the same in both.
  Handlers of the first listing end in \<open>_1\<close>, those of the second in \<open>_2\<close>.
\<close>

subsection \<open>JavaScript values\<close>

text \<open>
  A field of an inbound payload is a string or is missing (\<^verbatim>\<open>undefined\<close>, \<^verbatim>\<open>null\<close>):
  \<open>None\<close> is the missing field. \<open>truthy\<close> is what \<^verbatim>\<open>if (x)\<close> and \<^verbatim>\<open>!x\<close> test:
  a missing field and the empty string are falsy, every other string is truthy.
\<close>

type_synonym sid = string
type_synonym oid = nat
type_synonym date = nat

fun truthy :: "string option \<Rightarrow> bool" where
  "truthy None = False"
| "truthy (Some s) = (s \<noteq> [])"

text \<open>\<^verbatim>\<open>x || null\<close>\<close>

definition or_null :: "string option \<Rightarrow> string option" where
  "or_null x = (if truthy x then x else None)"

subsection \<open>Schemas (lines 30-38 and 270-290)\<close>

text \<open>The payload of a \<^verbatim>\<open>sendMessage\<close> event and the body of \<^verbatim>\<open>POST /messages\<close>.\<close>

record msg_payload =
  sender :: "string option"
  receiver :: "string option"
  content :: "string option"

text \<open>
  The object handed to \<^verbatim>\<open>Message.create\<close> or \<^verbatim>\<open>new Message\<close>: the three payload
  fields and, each given or left out, the fields that have a schema default.
\<close>

record message_init = msg_payload +
  init_timestamp :: "date option"
  init_isDelivered :: "bool option"
  init_isRead :: "bool option"

text \<open>A document of the Message collection.\<close>

record message = msg_payload +
  msg_id :: oid
  timestamp :: date
  isDelivered :: bool
  isRead :: bool

record user =
  username :: string
  password :: string
  status :: string
  mobileNumber :: string
  profileImage :: string

text \<open>
  The MongoDB database behind mongoose: the two collections in insertion order, the next
  unused ObjectId, and whether the server can be reached (an operation on an unreachable
  database rejects).
\<close>

record database =
  messages :: "message list"
  users :: "user list"
  next_oid :: oid
  db_up :: bool

datatype error = InvalidPayload | ValidationError | PersistenceFailure

subsection \<open>The server's state and what a handler does to the outside\<close>

record socket =
  socket_id :: sid
  socket_username :: "string option"

text \<open>
  \<open>sockets\<close> is \<^verbatim>\<open>io.sockets.sockets\<close>, the open connections in connection order;
  \<open>onlineUsers\<close> is the \<^verbatim>\<open>Map\<close> of line 307, in insertion order.
\<close>

record server =
  sockets :: "socket list"
  onlineUsers :: "(sid \<times> string) list"
  db :: database

datatype out_event =
  ReceiveMessage message
| UpdateMessageStatus oid bool
| OnlineUsers "string list"

text \<open>
  A handler returns the new state and, in order, what it did to the outside: an event
  emitted to one socket, a line on \<^verbatim>\<open>console.error\<close> with the error it caught, a line
  on \<^verbatim>\<open>console.log\<close>, or the rejection of the handler's own promise (an \<^verbatim>\<open>async\<close>
  handler without \<^verbatim>\<open>try\<close>, whose \<^verbatim>\<open>await\<close> rejected).
\<close>

datatype effect =
  Emit sid out_event
| ConsoleError string error
| ConsoleLog string
| UnhandledRejection error

text \<open>\<^verbatim>\<open>io.emit(event, payload)\<close>: to every open socket.\<close>

definition io_emit :: "server \<Rightarrow> out_event \<Rightarrow> effect list" where
  "io_emit s ev = map (\<lambda>k. Emit (socket_id k) ev) (sockets s)"

subsection \<open>The mongoose models\<close>

text \<open>
  \<^verbatim>\<open>new Message(obj)\<close>: the document gets its ObjectId, and the schema defaults fill
  the fields \<open>obj\<close> leaves out (\<^verbatim>\<open>timestamp: Date.now\<close>, \<^verbatim>\<open>isDelivered: false\<close>,
  \<^verbatim>\<open>isRead: false\<close>).
\<close>

definition Message_new :: "oid \<Rightarrow> date \<Rightarrow> message_init \<Rightarrow> message" where
  "Message_new i now obj =
     \<lparr>sender = sender obj, receiver = receiver obj, content = content obj,
      msg_id = i,
      timestamp = (case init_timestamp obj of None \<Rightarrow> now | Some t \<Rightarrow> t),
      isDelivered = (case init_isDelivered obj of None \<Rightarrow> False | Some b \<Rightarrow> b),
      isRead = (case init_isRead obj of None \<Rightarrow> False | Some b \<Rightarrow> b)\<rparr>"

text \<open>
  The schema's only validator is \<^verbatim>\<open>required: true\<close> on \<open>sender\<close>, which a missing
  value and the empty string fail.
\<close>

definition Message_validate :: "message \<Rightarrow> bool" where
  "Message_validate m = truthy (sender m)"

text \<open>\<^verbatim>\<open>doc.save()\<close> of a new document: validation, then the insert.\<close>

definition Message_insert :: "database \<Rightarrow> message \<Rightarrow> error + database" where
  "Message_insert d m =
     (if \<not> Message_validate m then Inl ValidationError
      else if \<not> db_up d then Inl PersistenceFailure
      else Inr (d\<lparr>messages := messages d @ [m], next_oid := Suc (next_oid d)\<rparr>))"

text \<open>\<^verbatim>\<open>Message.create(obj)\<close> is \<^verbatim>\<open>new Message(obj).save()\<close>, returning the document.\<close>

definition Message_create :: "database \<Rightarrow> date \<Rightarrow> message_init \<Rightarrow> error + (message \<times> database)" where
  "Message_create d now obj =
     (let m = Message_new (next_oid d) now obj
      in case Message_insert d m of Inl e \<Rightarrow> Inl e | Inr d' \<Rightarrow> Inr (m, d'))"

definition Message_findById :: "database \<Rightarrow> oid \<Rightarrow> error + message option" where
  "Message_findById d i =
     (if \<not> db_up d then Inl PersistenceFailure
      else Inr (find (\<lambda>m. msg_id m = i) (messages d)))"

text \<open>\<^verbatim>\<open>updateOne\<close>: the first document that matches is changed.\<close>

fun updateOne :: "('a \<Rightarrow> bool) \<Rightarrow> ('a \<Rightarrow> 'a) \<Rightarrow> 'a list \<Rightarrow> 'a list" where
  "updateOne P f [] = []"
| "updateOne P f (x # xs) = (if P x then f x # xs else x # updateOne P f xs)"

text \<open>
  \<^verbatim>\<open>message.save()\<close> of a document that was loaded and had \<open>isRead\<close> assigned:
  validation, then the modified path is written to the stored document.
\<close>

definition Message_save :: "database \<Rightarrow> message \<Rightarrow> error + database" where
  "Message_save d m =
     (if \<not> Message_validate m then Inl ValidationError
      else if \<not> db_up d then Inl PersistenceFailure
      else Inr (d\<lparr>messages :=
             updateOne (\<lambda>x. msg_id x = msg_id m) (\<lambda>x. x\<lparr>isRead := isRead m\<rparr>) (messages d)\<rparr>))"

text \<open>
  The filter object of \<^verbatim>\<open>GET /messages\<close>: a key is present (\<open>Some\<close>) or not. A document
  matches when each present key equals the document's field.
\<close>

record query_filter =
  filter_sender :: "string option"
  filter_receiver :: "string option"

definition matches :: "query_filter \<Rightarrow> message \<Rightarrow> bool" where
  "matches f m =
     ((case filter_sender f of None \<Rightarrow> True | Some v \<Rightarrow> sender m = Some v) \<and>
      (case filter_receiver f of None \<Rightarrow> True | Some v \<Rightarrow> receiver m = Some v))"

text \<open>\<^verbatim>\<open>.sort({ timestamp: -1 })\<close>: latest first.\<close>

fun insert_desc :: "message \<Rightarrow> message list \<Rightarrow> message list" where
  "insert_desc m [] = [m]"
| "insert_desc m (x # xs) =
     (if timestamp x \<le> timestamp m then m # x # xs else x # insert_desc m xs)"

definition sort_desc :: "message list \<Rightarrow> message list" where
  "sort_desc ms = foldr insert_desc ms []"

definition Message_find_sorted :: "database \<Rightarrow> query_filter \<Rightarrow> error + message list" where
  "Message_find_sorted d f =
     (if \<not> db_up d then Inl PersistenceFailure
      else Inr (sort_desc (filter (matches f) (messages d))))"

text \<open>\<^verbatim>\<open>User.findOneAndUpdate({ username }, { status })\<close>\<close>

definition User_findOneAndUpdate :: "database \<Rightarrow> string \<Rightarrow> string \<Rightarrow> error + database" where
  "User_findOneAndUpdate d name st =
     (if \<not> db_up d then Inl PersistenceFailure
      else Inr (d\<lparr>users := updateOne (\<lambda>u. username u = name) (\<lambda>u. u\<lparr>status := st\<rparr>) (users d)\<rparr>))"

subsection \<open>The Map of online users\<close>

text \<open>
  A JavaScript \<^verbatim>\<open>Map\<close> iterates in insertion order; \<^verbatim>\<open>set\<close> on a key that is present
  replaces the value where it stands, on a new key it appends.
\<close>

fun Map_set :: "('k \<times> 'v) list \<Rightarrow> 'k \<Rightarrow> 'v \<Rightarrow> ('k \<times> 'v) list" where
  "Map_set [] k v = [(k, v)]"
| "Map_set ((k', v') # r) k v =
     (if k' = k then (k, v) # r else (k', v') # Map_set r k v)"

definition Map_get :: "('k \<times> 'v) list \<Rightarrow> 'k \<Rightarrow> 'v option" where
  "Map_get r k = map_of r k"

definition Map_delete :: "('k \<times> 'v) list \<Rightarrow> 'k \<Rightarrow> ('k \<times> 'v) list" where
  "Map_delete r k = filter (\<lambda>e. fst e \<noteq> k) r"

definition Map_values :: "('k \<times> 'v) list \<Rightarrow> 'v list" where
  "Map_values r = map snd r"

subsection \<open>Socket handlers of the first listing (lines 60-126)\<close>

text \<open>\<^verbatim>\<open>setUsername\<close>, line 63: the label is kept on the socket object.\<close>

definition setUsername_1 :: "server \<Rightarrow> sid \<Rightarrow> string \<Rightarrow> server \<times> effect list" where
  "setUsername_1 s sock name =
     (s\<lparr>sockets := map (\<lambda>k. if socket_id k = sock then k\<lparr>socket_username := Some name\<rparr> else k)
                        (sockets s)\<rparr>,
      [ConsoleLog (''Socket '' @ sock @ '' set as '' @ name)])"

text \<open>The object sent with \<^verbatim>\<open>receiveMessage\<close>, lines 82-90: the saved document, field by field.\<close>

definition formattedMessage :: "message \<Rightarrow> message" where
  "formattedMessage savedMessage =
     \<lparr>sender = sender savedMessage, receiver = receiver savedMessage,
      content = content savedMessage,
      msg_id = msg_id savedMessage,
      timestamp = timestamp savedMessage,
      isDelivered = isDelivered savedMessage,
      isRead = isRead savedMessage\<rparr>"

text \<open>\<^verbatim>\<open>sendMessage\<close>, lines 68-105. \<open>now\<close> is what \<^verbatim>\<open>new Date()\<close> returns.\<close>

definition sendMessage :: "server \<Rightarrow> date \<Rightarrow> msg_payload \<Rightarrow> server \<times> effect list" where
  "sendMessage s now message =
     (if \<not> truthy (sender message) \<or> \<not> truthy (content message)
      then (s, [ConsoleError ''Error saving message:'' InvalidPayload])
      else
        case Message_create (db s) now
               \<lparr>sender = sender message, receiver = or_null (receiver message),
                content = content message,
                init_timestamp = Some now, init_isDelivered = Some True, init_isRead = None\<rparr>
        of
          Inl e \<Rightarrow> (s, [ConsoleError ''Error saving message:'' e])
        | Inr (savedMessage, d') \<Rightarrow>
            (s\<lparr>db := d'\<rparr>,
             if truthy (receiver message)
             then (case find (\<lambda>k. socket_username k = receiver message) (sockets s) of
                     Some receiverSocket \<Rightarrow>
                       [Emit (socket_id receiverSocket) (ReceiveMessage (formattedMessage savedMessage))]
                   | None \<Rightarrow> [])
             else io_emit s (ReceiveMessage (formattedMessage savedMessage))))"

text \<open>\<^verbatim>\<open>markAsRead\<close>, lines 107-121.\<close>

definition markAsRead :: "server \<Rightarrow> oid \<Rightarrow> server \<times> effect list" where
  "markAsRead s messageId =
     (case Message_findById (db s) messageId of
        Inl e \<Rightarrow> (s, [ConsoleError ''Error marking message as read:'' e])
      | Inr None \<Rightarrow> (s, [])
      | Inr (Some found) \<Rightarrow>
          (let message = found\<lparr>isRead := True\<rparr>
           in case Message_save (db s) message of
                Inl e \<Rightarrow> (s, [ConsoleError ''Error marking message as read:'' e])
              | Inr d' \<Rightarrow>
                  (s\<lparr>db := d'\<rparr>,
                   io_emit s (UpdateMessageStatus (msg_id message) (isRead message)))))"

text \<open>\<^verbatim>\<open>disconnect\<close>, lines 123-125.\<close>

definition disconnect_1 :: "server \<Rightarrow> sid \<Rightarrow> server \<times> effect list" where
  "disconnect_1 s sock = (s, [ConsoleLog (''User disconnected: '' @ sock)])"

subsection \<open>Socket handlers of the second listing (lines 307-328)\<close>

text \<open>
  \<^verbatim>\<open>setUsername\<close>, lines 312-317. The handler is \<^verbatim>\<open>async\<close> and has no \<^verbatim>\<open>try\<close>: when
  the \<^verbatim>\<open>await\<close> rejects, the lines after it do not run and nothing catches the error.
\<close>

definition setUsername_2 :: "server \<Rightarrow> sid \<Rightarrow> string \<Rightarrow> server \<times> effect list" where
  "setUsername_2 s sock name =
     (let s1 = s\<lparr>onlineUsers := Map_set (onlineUsers s) sock name\<rparr>
      in case User_findOneAndUpdate (db s1) name ''online'' of
           Inl e \<Rightarrow> (s1, [UnhandledRejection e])
         | Inr d' \<Rightarrow>
             (let s2 = s1\<lparr>db := d'\<rparr>
              in (s2, io_emit s2 (OnlineUsers (Map_values (onlineUsers s2)))
                      @ [ConsoleLog (''Socket '' @ sock @ '' set as '' @ name)])))"

text \<open>\<^verbatim>\<open>disconnect\<close>, lines 319-327.\<close>

definition disconnect_2 :: "server \<Rightarrow> sid \<Rightarrow> server \<times> effect list" where
  "disconnect_2 s sock =
     (case Map_get (onlineUsers s) sock of
        None \<Rightarrow> (s, [ConsoleLog (''User disconnected: '' @ sock)])
      | Some name \<Rightarrow>
          if truthy (Some name)
          then (case User_findOneAndUpdate (db s) name ''offline'' of
                  Inl e \<Rightarrow> (s, [UnhandledRejection e])
                | Inr d' \<Rightarrow>
                    (let s2 = s\<lparr>db := d', onlineUsers := Map_delete (onlineUsers s) sock\<rparr>
                     in (s2, io_emit s2 (OnlineUsers (Map_values (onlineUsers s2)))
                             @ [ConsoleLog (''User disconnected: '' @ sock)])))
          else (s, [ConsoleLog (''User disconnected: '' @ sock)]))"

subsection \<open>The message routes (lines 129-161, again 331-363)\<close>

datatype response =
  MessagesJson nat "message list"
| MessageJson nat message
| ErrorJson nat string

text \<open>\<^verbatim>\<open>GET /messages\<close>: the two query parameters, each present or not.\<close>

definition get_messages :: "database \<Rightarrow> string option \<Rightarrow> string option \<Rightarrow> response \<times> effect list" where
  "get_messages d q_sender q_receiver =
     (let flt = \<lparr>filter_sender = (if truthy q_sender then q_sender else None),
                 filter_receiver = (if truthy q_receiver then q_receiver else None)\<rparr>
      in case Message_find_sorted d flt of
           Inl e \<Rightarrow> (ErrorJson 500 ''Failed to fetch messages'',
                     [ConsoleError ''Error fetching messages:'' e])
         | Inr ms \<Rightarrow> (MessagesJson 200 ms, []))"

text \<open>\<^verbatim>\<open>POST /messages\<close>: the body's three fields go to the document as they are.\<close>

definition post_messages :: "database \<Rightarrow> date \<Rightarrow> msg_payload \<Rightarrow> (response \<times> effect list) \<times> database" where
  "post_messages d now body =
     (let newMessage = Message_new (next_oid d) now
            \<lparr>sender = sender body, receiver = receiver body, content = content body,
             init_timestamp = None, init_isDelivered = Some True, init_isRead = Some False\<rparr>
      in case Message_insert d newMessage of
           Inl e \<Rightarrow> ((ErrorJson 500 ''Failed to save message'',
                      [ConsoleError ''Error saving message:'' e]), d)
         | Inr d' \<Rightarrow> ((MessageJson 201 newMessage, []), d'))"

subsection \<open>The document a valid send stores\<close>

text \<open>
  The argument of \<^verbatim>\<open>Message.create\<close> at lines 74-80, as a document: what
  \<open>sendMessage\<close> saves when the payload passes the check of line 70.
\<close>

definition savedMessage :: "server \<Rightarrow> date \<Rightarrow> msg_payload \<Rightarrow> message" where
  "savedMessage s now message =
     Message_new (next_oid (db s)) now
       \<lparr>sender = sender message, receiver = or_null (receiver message),
        content = content message,
        init_timestamp = Some now, init_isDelivered = Some True, init_isRead = None\<rparr>"

subsection \<open>A small server, for concrete runs\<close>

definition alice_user :: user where
  "alice_user = \<lparr>username = ''alice'', password = ''x'', status = ''online'',
                  mobileNumber = '''', profileImage = ''''\<rparr>"

definition bob_user :: user where
  "bob_user = \<lparr>username = ''bob'', password = ''y'', status = ''online'',
                mobileNumber = '''', profileImage = ''''\<rparr>"

definition first_message :: message where
  "first_message = \<lparr>sender = Some ''alice'', receiver = Some ''bob'', content = Some ''hi'',
                     msg_id = 0, timestamp = 10, isDelivered = True, isRead = False\<rparr>"

definition ex_db :: database where
  "ex_db = \<lparr>messages = [first_message], users = [alice_user, bob_user],
            next_oid = 1, db_up = True\<rparr>"

text \<open>Three open sockets: alice, bob, and one that has not set a name.\<close>

definition ex_server :: server where
  "ex_server =
     \<lparr>sockets = [\<lparr>socket_id = ''s1'', socket_username = Some ''alice''\<rparr>,
                 \<lparr>socket_id = ''s2'', socket_username = Some ''bob''\<rparr>,
                 \<lparr>socket_id = ''s3'', socket_username = None\<rparr>],
      onlineUsers = [(''s1'', ''alice''), (''s2'', ''bob'')],
      db = ex_db\<rparr>"

text \<open>Two sockets just connected, nothing stored.\<close>

definition fresh_server :: server where
  "fresh_server =
     \<lparr>sockets = [\<lparr>socket_id = ''s1'', socket_username = None\<rparr>,
                 \<lparr>socket_id = ''s2'', socket_username = None\<rparr>],
      onlineUsers = [],
      db = \<lparr>messages = [], users = [], next_oid = 0, db_up = True\<rparr>\<rparr>"

text \<open>
  The state in which the \<^verbatim>\<open>disconnect\<close> handler of socket s1 runs, after s1 and s2 both
  declared alice: socket.io has taken s1 out of the open sockets, the map still holds both
  entries.
\<close>

definition two_alice :: server where
  "two_alice =
     \<lparr>sockets = [\<lparr>socket_id = ''s2'', socket_username = None\<rparr>],
      onlineUsers = [(''s1'', ''alice''), (''s2'', ''alice'')],
      db = ex_db\<rparr>"

text \<open>The small server with its database out of reach.\<close>

definition ex_server_down :: server where
  "ex_server_down = ex_server\<lparr>db := ex_db\<lparr>db_up := False\<rparr>\<rparr>"

text \<open>A collection of three messages, not in the order of their timestamps.\<close>

definition second_message :: message where
  "second_message = \<lparr>sender = Some ''bob'', receiver = Some ''alice'', content = Some ''hey'',
                      msg_id = 1, timestamp = 30, isDelivered = True, isRead = False\<rparr>"

definition third_message :: message where
  "third_message = \<lparr>sender = Some ''alice'', receiver = None, content = Some ''hello all'',
                     msg_id = 2, timestamp = 20, isDelivered = True, isRead = False\<rparr>"

definition ex_db3 :: database where
  "ex_db3 = \<lparr>messages = [first_message, second_message, third_message],
             users = [alice_user, bob_user], next_oid = 3, db_up = True\<rparr>"

subsection \<open>Predicates used in the properties\<close>

text \<open>Latest first: no message is followed by a later one.\<close>

definition latest_first :: "message list \<Rightarrow> bool" where
  "latest_first ms = sorted_wrt (\<lambda>a b. timestamp b \<le> timestamp a) ms"

text \<open>Every stored message passed the schema's validation.\<close>

definition valid_store :: "database \<Rightarrow> bool" where
  "valid_store d = list_all Message_validate (messages d)"

section \<open>Properties\<close>

subsection \<open>Sending a message\<close>

lemma sendMessage_invalid:
  "\<not> truthy (sender m) \<or> \<not> truthy (content m) \<Longrightarrow>
     sendMessage s now m = (s, [ConsoleError ''Error saving message:'' InvalidPayload])"
  by (simp add: sendMessage_def)

lemma Message_create_ok:
  "truthy (sender obj) \<Longrightarrow> db_up d \<Longrightarrow>
     Message_create d now obj =
       Inr (Message_new (next_oid d) now obj,
            d\<lparr>messages := messages d @ [Message_new (next_oid d) now obj],
              next_oid := Suc (next_oid d)\<rparr>)"
  by (simp add: Message_create_def Message_insert_def Message_validate_def Message_new_def Let_def)

lemma savedMessage_fields:
  "savedMessage s now m =
     \<lparr>sender = sender m, receiver = or_null (receiver m), content = content m,
      msg_id = next_oid (db s), timestamp = now, isDelivered = True, isRead = False\<rparr>"
  by (simp add: savedMessage_def Message_new_def)

lemma formattedMessage_same: "formattedMessage m = m"
  by (simp add: formattedMessage_def)

lemma sendMessage_valid_state:
  assumes "truthy (sender m)" "truthy (content m)" "db_up (db s)"
  shows "fst (sendMessage s now m) =
           s\<lparr>db := (db s)\<lparr>messages := messages (db s) @ [savedMessage s now m],
                           next_oid := Suc (next_oid (db s))\<rparr>\<rparr>"
  using assms
  by (simp add: sendMessage_def Message_create_ok savedMessage_def)

lemma sendMessage_valid_effects:
  assumes "truthy (sender m)" "truthy (content m)" "db_up (db s)"
  shows "snd (sendMessage s now m) =
           (if truthy (receiver m)
            then (case find (\<lambda>k. socket_username k = receiver m) (sockets s) of
                    Some k \<Rightarrow> [Emit (socket_id k) (ReceiveMessage (savedMessage s now m))]
                  | None \<Rightarrow> [])
            else io_emit s (ReceiveMessage (savedMessage s now m)))"
  using assms
  by (simp add: sendMessage_def Message_create_ok formattedMessage_same savedMessage_def
      split: option.split)

lemma find_single: "filter P xs = [k] \<Longrightarrow> find P xs = Some k"
  by (induction xs) (auto split: if_splits)

lemma find_none: "filter P xs = [] \<Longrightarrow> find P xs = None"
  by (induction xs) (auto split: if_splits)

text \<open>
  C1. A \<open>sendMessage\<close> event whose sender or content is missing or empty fails with
  \<open>InvalidPayload\<close>: the state is the one before, so no message is stored, and the only
  thing the handler does is write the error to the console, so nothing is emitted.
  Otherwise, when the database takes the write, one new document is appended to the
  collection, with the payload's sender and content, \<open>isDelivered = True\<close>,
  \<open>isRead = False\<close>, the server's clock as timestamp and the next ObjectId.
\<close>

theorem sendMessage_validates:
  "(\<not> truthy (sender m) \<or> \<not> truthy (content m) \<longrightarrow>
      sendMessage s now m = (s, [ConsoleError ''Error saving message:'' InvalidPayload]))
   \<and> (truthy (sender m) \<and> truthy (content m) \<and> db_up (db s) \<longrightarrow>
      (\<exists>saved. messages (db (fst (sendMessage s now m))) = messages (db s) @ [saved]
         \<and> sender saved = sender m \<and> content saved = content m
         \<and> isDelivered saved \<and> \<not> isRead saved \<and> timestamp saved = now
         \<and> msg_id saved = next_oid (db s)))"
proof (intro conjI impI)
  assume "\<not> truthy (sender m) \<or> \<not> truthy (content m)"
  then show "sendMessage s now m = (s, [ConsoleError ''Error saving message:'' InvalidPayload])"
    by (rule sendMessage_invalid)
next
  assume v: "truthy (sender m) \<and> truthy (content m) \<and> db_up (db s)"
  then have "messages (db (fst (sendMessage s now m))) = messages (db s) @ [savedMessage s now m]"
    by (simp add: sendMessage_valid_state)
  then show "\<exists>saved. messages (db (fst (sendMessage s now m))) = messages (db s) @ [saved]
         \<and> sender saved = sender m \<and> content saved = content m
         \<and> isDelivered saved \<and> \<not> isRead saved \<and> timestamp saved = now
         \<and> msg_id saved = next_oid (db s)"
    by (intro exI [of _ "savedMessage s now m"]) (simp add: savedMessage_fields)
qed

theorem sendMessage_validates_witness:
  "sendMessage ex_server 20 \<lparr>sender = Some ''alice'', receiver = Some ''bob'', content = Some ''''\<rparr>
     = (ex_server, [ConsoleError ''Error saving message:'' InvalidPayload])
   \<and> messages (db (fst (sendMessage ex_server 20
         \<lparr>sender = Some ''alice'', receiver = Some ''bob'', content = Some ''yo''\<rparr>)))
       = [first_message,
          \<lparr>sender = Some ''alice'', receiver = Some ''bob'', content = Some ''yo'',
           msg_id = 1, timestamp = 20, isDelivered = True, isRead = False\<rparr>]"
  using sendMessage_validates [of "\<lparr>sender = Some ''alice'', receiver = Some ''bob'', content = Some ''''\<rparr>" ex_server 20]
        sendMessage_validates [of "\<lparr>sender = Some ''alice'', receiver = Some ''bob'', content = Some ''yo''\<rparr>" ex_server 20]
  by (simp add: ex_server_def ex_db_def sendMessage_valid_state savedMessage_fields or_null_def)

text \<open>
  C2. A valid \<open>sendMessage\<close> with a receiver, the database taking the write. When exactly
  one open socket carries the receiver's label, the handler's only effect is one
  \<open>receiveMessage\<close> to that socket, so no other socket is sent anything. When no open
  socket carries it, the handler emits nothing and the document is in the collection.
\<close>

theorem sendMessage_addressed:
  assumes "truthy (sender m)" and "truthy (content m)" and "truthy (receiver m)"
    and "db_up (db s)"
  shows "(filter (\<lambda>k. socket_username k = receiver m) (sockets s) = [k] \<longrightarrow>
            snd (sendMessage s now m) = [Emit (socket_id k) (ReceiveMessage (savedMessage s now m))])
       \<and> (filter (\<lambda>k. socket_username k = receiver m) (sockets s) = [] \<longrightarrow>
            snd (sendMessage s now m) = []
            \<and> messages (db (fst (sendMessage s now m))) = messages (db s) @ [savedMessage s now m])"
  using assms
  by (auto simp: sendMessage_valid_effects sendMessage_valid_state find_single find_none)

theorem sendMessage_addressed_witness:
  "snd (sendMessage ex_server 20 \<lparr>sender = Some ''alice'', receiver = Some ''bob'', content = Some ''yo''\<rparr>)
     = [Emit ''s2'' (ReceiveMessage
          \<lparr>sender = Some ''alice'', receiver = Some ''bob'', content = Some ''yo'',
           msg_id = 1, timestamp = 20, isDelivered = True, isRead = False\<rparr>)]
   \<and> snd (sendMessage ex_server 20 \<lparr>sender = Some ''alice'', receiver = Some ''carol'', content = Some ''yo''\<rparr>)
     = []
   \<and> messages (db (fst (sendMessage ex_server 20
        \<lparr>sender = Some ''alice'', receiver = Some ''carol'', content = Some ''yo''\<rparr>)))
     = [first_message,
        \<lparr>sender = Some ''alice'', receiver = Some ''carol'', content = Some ''yo'',
         msg_id = 1, timestamp = 20, isDelivered = True, isRead = False\<rparr>]"
  using sendMessage_addressed [of "\<lparr>sender = Some ''alice'', receiver = Some ''bob'', content = Some ''yo''\<rparr>"
          ex_server "\<lparr>socket_id = ''s2'', socket_username = Some ''bob''\<rparr>" 20]
        sendMessage_addressed [of "\<lparr>sender = Some ''alice'', receiver = Some ''carol'', content = Some ''yo''\<rparr>"
          ex_server "\<lparr>socket_id = ''s1'', socket_username = Some ''alice''\<rparr>" 20]
  by (simp add: ex_server_def ex_db_def savedMessage_fields or_null_def)

text \<open>
  The first listing end to end: s1 sets alice, s2 sets bob, alice sends hi to bob. Only s2
  is sent the message.
\<close>

lemma alice_to_bob:
  "snd (sendMessage (fst (setUsername_1 (fst (setUsername_1 fresh_server ''s1'' ''alice'')) ''s2'' ''bob''))
          20 \<lparr>sender = Some ''alice'', receiver = Some ''bob'', content = Some ''hi''\<rparr>)
     = [Emit ''s2'' (ReceiveMessage
          \<lparr>sender = Some ''alice'', receiver = Some ''bob'', content = Some ''hi'',
           msg_id = 0, timestamp = 20, isDelivered = True, isRead = False\<rparr>)]"
  by (simp add: sendMessage_valid_effects setUsername_1_def fresh_server_def
      savedMessage_fields or_null_def)

text \<open>
  C3. A valid \<open>sendMessage\<close> without a receiver, the database taking the write: the
  handler's effects are one \<open>receiveMessage\<close> per open socket, in connection order. Every
  open socket is sent the message, the sender's own among them.
\<close>

theorem sendMessage_broadcast:
  assumes "truthy (sender m)" and "truthy (content m)" and "receiver m = None"
    and "db_up (db s)"
  shows "snd (sendMessage s now m) =
           map (\<lambda>k. Emit (socket_id k) (ReceiveMessage (savedMessage s now m))) (sockets s)
       \<and> (\<forall>k \<in> set (sockets s).
            Emit (socket_id k) (ReceiveMessage (savedMessage s now m))
              \<in> set (snd (sendMessage s now m)))"
  using assms
  by (auto simp: sendMessage_valid_effects io_emit_def)

theorem sendMessage_broadcast_witness:
  "snd (sendMessage ex_server 20 \<lparr>sender = Some ''alice'', receiver = None, content = Some ''hello all''\<rparr>)
     = [Emit ''s1'' (ReceiveMessage
          \<lparr>sender = Some ''alice'', receiver = None, content = Some ''hello all'',
           msg_id = 1, timestamp = 20, isDelivered = True, isRead = False\<rparr>),
        Emit ''s2'' (ReceiveMessage
          \<lparr>sender = Some ''alice'', receiver = None, content = Some ''hello all'',
           msg_id = 1, timestamp = 20, isDelivered = True, isRead = False\<rparr>),
        Emit ''s3'' (ReceiveMessage
          \<lparr>sender = Some ''alice'', receiver = None, content = Some ''hello all'',
           msg_id = 1, timestamp = 20, isDelivered = True, isRead = False\<rparr>)]"
  using sendMessage_broadcast [of "\<lparr>sender = Some ''alice'', receiver = None, content = Some ''hello all''\<rparr>"
          ex_server 20]
  by (simp add: ex_server_def ex_db_def savedMessage_fields or_null_def)

subsection \<open>Marking a message read\<close>

lemma find_msg_id: "find (\<lambda>x. msg_id x = i) ms = Some msg \<Longrightarrow> msg_id msg = i"
  by (induction ms) (auto split: if_splits)

lemma find_updateOne:
  "find P xs = Some x \<Longrightarrow> P (f x) \<Longrightarrow> find P (updateOne P f xs) = Some (f x)"
  by (induction xs) (auto split: if_splits)

lemma updateOne_twice:
  "(\<And>x. P (f x) = P x) \<Longrightarrow> (\<And>x. f (f x) = f x) \<Longrightarrow>
     updateOne P f (updateOne P f xs) = updateOne P f xs"
  by (induction xs) auto

lemma markAsRead_absent:
  "find (\<lambda>x. msg_id x = i) (messages (db s)) = None \<Longrightarrow>
     markAsRead s i =
       (s, if db_up (db s) then []
           else [ConsoleError ''Error marking message as read:'' PersistenceFailure])"
  by (simp add: markAsRead_def Message_findById_def)

lemma markAsRead_found:
  assumes "find (\<lambda>x. msg_id x = i) (messages (db s)) = Some msg"
    and "db_up (db s)" and "truthy (sender msg)"
  shows "markAsRead s i =
           (s\<lparr>db := (db s)\<lparr>messages :=
                 updateOne (\<lambda>x. msg_id x = i) (\<lambda>x. x\<lparr>isRead := True\<rparr>) (messages (db s))\<rparr>\<rparr>,
            io_emit s (UpdateMessageStatus i True))"
  using assms find_msg_id [OF assms(1)]
  by (simp add: markAsRead_def Message_findById_def Message_save_def Message_validate_def Let_def)

lemma markAsRead_unchanged_cases:
  "fst (markAsRead s i) = s \<or>
   (\<exists>msg. find (\<lambda>x. msg_id x = i) (messages (db s)) = Some msg \<and> db_up (db s) \<and> truthy (sender msg))"
  by (auto simp: markAsRead_def Message_findById_def Message_save_def Message_validate_def Let_def
      split: option.splits)

lemma markAsRead_idem: "markAsRead (fst (markAsRead s i)) i = markAsRead s i"
proof -
  consider (same) "fst (markAsRead s i) = s"
    | (upd) msg where "find (\<lambda>x. msg_id x = i) (messages (db s)) = Some msg"
        "db_up (db s)" "truthy (sender msg)"
    using markAsRead_unchanged_cases by blast
  then show ?thesis
  proof cases
    case same
    then show ?thesis by simp
  next
    case upd
    let ?P = "\<lambda>x. msg_id x = i"
    let ?f = "\<lambda>x::message. x\<lparr>isRead := True\<rparr>"
    let ?s' = "s\<lparr>db := (db s)\<lparr>messages := updateOne ?P ?f (messages (db s))\<rparr>\<rparr>"
    have first: "markAsRead s i = (?s', io_emit s (UpdateMessageStatus i True))"
      using upd by (rule markAsRead_found)
    have "msg_id msg = i" using upd(1) by (rule find_msg_id)
    then have found': "find ?P (messages (db ?s')) = Some (msg\<lparr>isRead := True\<rparr>)"
      using upd(1) by (simp add: find_updateOne)
    have "markAsRead ?s' i =
            (?s'\<lparr>db := (db ?s')\<lparr>messages := updateOne ?P ?f (messages (db ?s'))\<rparr>\<rparr>,
             io_emit ?s' (UpdateMessageStatus i True))"
      using markAsRead_found [of i ?s' "msg\<lparr>isRead := True\<rparr>"] found' upd(2,3) by simp
    also have "\<dots> = (?s', io_emit s (UpdateMessageStatus i True))"
      by (simp add: updateOne_twice io_emit_def)
    finally show ?thesis using first by simp
  qed
qed

text \<open>
  C4. \<open>markAsRead\<close> on an identifier no stored message has changes nothing and emits
  nothing (with the database in reach it does nothing at all). On the identifier of a
  stored message, the database in reach and the document valid as every stored document
  is (\<open>markAsRead_valid_store\<close>, \<open>valid_store_found\<close>): the collection is the old one
  with \<open>isRead\<close> set on that document, which is otherwise as it was, content and
  timestamp included, and \<open>updateMessageStatus\<close> with the identifier and \<open>True\<close> goes
  to every open socket. A second call gives the state and the effects of the first, so it
  leaves the document as it is and emits again.
\<close>

theorem markAsRead_behaviour:
  "(find (\<lambda>x. msg_id x = i) (messages (db s)) = None \<longrightarrow>
      fst (markAsRead s i) = s
      \<and> (\<forall>k ev. Emit k ev \<notin> set (snd (markAsRead s i)))
      \<and> (db_up (db s) \<longrightarrow> snd (markAsRead s i) = []))
   \<and> (find (\<lambda>x. msg_id x = i) (messages (db s)) = Some msg \<and> db_up (db s) \<and> truthy (sender msg) \<longrightarrow>
      messages (db (fst (markAsRead s i))) =
        updateOne (\<lambda>x. msg_id x = i) (\<lambda>x. x\<lparr>isRead := True\<rparr>) (messages (db s))
      \<and> find (\<lambda>x. msg_id x = i) (messages (db (fst (markAsRead s i)))) = Some (msg\<lparr>isRead := True\<rparr>)
      \<and> snd (markAsRead s i) = map (\<lambda>k. Emit (socket_id k) (UpdateMessageStatus i True)) (sockets s))
   \<and> markAsRead (fst (markAsRead s i)) i = markAsRead s i"
proof (intro conjI impI)
  assume "find (\<lambda>x. msg_id x = i) (messages (db s)) = None"
  note a = markAsRead_absent [OF this]
  show "fst (markAsRead s i) = s" by (simp add: a)
  show "\<forall>k ev. Emit k ev \<notin> set (snd (markAsRead s i))" by (simp add: a)
  show "snd (markAsRead s i) = []" if "db_up (db s)" using that by (simp add: a)
next
  assume "find (\<lambda>x. msg_id x = i) (messages (db s)) = Some msg \<and> db_up (db s) \<and> truthy (sender msg)"
  then have f: "find (\<lambda>x. msg_id x = i) (messages (db s)) = Some msg"
    and u: "db_up (db s)" and v: "truthy (sender msg)" by simp_all
  note m = markAsRead_found [OF f u v]
  show "messages (db (fst (markAsRead s i))) =
        updateOne (\<lambda>x. msg_id x = i) (\<lambda>x. x\<lparr>isRead := True\<rparr>) (messages (db s))"
    by (simp add: m)
  show "find (\<lambda>x. msg_id x = i) (messages (db (fst (markAsRead s i)))) = Some (msg\<lparr>isRead := True\<rparr>)"
    using f find_msg_id [OF f] by (simp add: m find_updateOne)
  show "snd (markAsRead s i) = map (\<lambda>k. Emit (socket_id k) (UpdateMessageStatus i True)) (sockets s)"
    by (simp add: m io_emit_def)
next
  show "markAsRead (fst (markAsRead s i)) i = markAsRead s i" by (rule markAsRead_idem)
qed

theorem markAsRead_behaviour_witness:
  "markAsRead ex_server 7 = (ex_server, [])
   \<and> messages (db (fst (markAsRead ex_server 0))) = [first_message\<lparr>isRead := True\<rparr>]
   \<and> snd (markAsRead ex_server 0) =
       [Emit ''s1'' (UpdateMessageStatus 0 True), Emit ''s2'' (UpdateMessageStatus 0 True),
        Emit ''s3'' (UpdateMessageStatus 0 True)]
   \<and> snd (markAsRead (fst (markAsRead ex_server 0)) 0) =
       [Emit ''s1'' (UpdateMessageStatus 0 True), Emit ''s2'' (UpdateMessageStatus 0 True),
        Emit ''s3'' (UpdateMessageStatus 0 True)]
   \<and> messages (db (fst (markAsRead (fst (markAsRead ex_server 0)) 0)))
       = [\<lparr>sender = Some ''alice'', receiver = Some ''bob'', content = Some ''hi'',
           msg_id = 0, timestamp = 10, isDelivered = True, isRead = True\<rparr>]"
  using markAsRead_behaviour [of 7 ex_server first_message]
        markAsRead_behaviour [of 0 ex_server first_message]
  by (simp add: ex_server_def ex_db_def first_message_def prod_eq_iff)

subsection \<open>Presence: declaring an identity and closing\<close>

lemma Map_get_set: "Map_get (Map_set r k v) k' = (if k' = k then Some v else Map_get r k')"
  by (induction r) (auto simp: Map_get_def)

lemma Map_get_delete: "Map_get (Map_delete r k) k' = (if k' = k then None else Map_get r k')"
  by (induction r) (auto simp: Map_get_def Map_delete_def)

lemma Map_set_keys:
  "map fst (Map_set r k v) = (if k \<in> set (map fst r) then map fst r else map fst r @ [k])"
  by (induction r) force+

lemma Map_set_distinct: "distinct (map fst r) \<Longrightarrow> distinct (map fst (Map_set r k v))"
  by (simp add: Map_set_keys del: set_map)

lemma Map_delete_distinct: "distinct (map fst r) \<Longrightarrow> distinct (map fst (Map_delete r k))"
  by (simp add: Map_delete_def distinct_map_filter)

lemma Map_set_self: "(k, v) \<in> set (Map_set r k v)"
  by (induction r) auto

lemma Map_set_other: "e \<in> set r \<Longrightarrow> fst e \<noteq> k \<Longrightarrow> e \<in> set (Map_set r k v)"
  by (induction r) auto

lemma two_entries_count:
  "x \<in> set r \<Longrightarrow> y \<in> set r \<Longrightarrow> x \<noteq> y \<Longrightarrow> snd x = v \<Longrightarrow> snd y = v \<Longrightarrow>
     2 \<le> count_list (map snd r) v"
proof (induction r)
  case Nil
  then show ?case by simp
next
  case (Cons e r)
  have one: "z \<in> set r \<Longrightarrow> snd z = v \<Longrightarrow> 1 \<le> count_list (map snd r) v" for z
    using count_list_0_iff [of "map snd r" v] by (cases "count_list (map snd r) v") force+
  from Cons show ?case
    using one by (cases "e = x"; cases "e = y") auto
qed

lemma User_findOneAndUpdate_up:
  "db_up d \<Longrightarrow> User_findOneAndUpdate d name st =
     Inr (d\<lparr>users := updateOne (\<lambda>u. username u = name) (\<lambda>u. u\<lparr>status := st\<rparr>) (users d)\<rparr>)"
  by (simp add: User_findOneAndUpdate_def)

lemma setUsername_2_registry:
  "onlineUsers (fst (setUsername_2 s sock name)) = Map_set (onlineUsers s) sock name"
  by (simp add: setUsername_2_def User_findOneAndUpdate_def Let_def)

lemma setUsername_2_up:
  assumes "db_up (db s)"
  shows "setUsername_2 s sock name =
           (s\<lparr>onlineUsers := Map_set (onlineUsers s) sock name,
              db := (db s)\<lparr>users := updateOne (\<lambda>u. username u = name)
                                      (\<lambda>u. u\<lparr>status := ''online''\<rparr>) (users (db s))\<rparr>\<rparr>,
            map (\<lambda>k. Emit (socket_id k)
                   (OnlineUsers (Map_values (Map_set (onlineUsers s) sock name)))) (sockets s)
            @ [ConsoleLog (''Socket '' @ sock @ '' set as '' @ name)])"
  using assms
  by (simp add: setUsername_2_def User_findOneAndUpdate_up Let_def io_emit_def)

lemma setUsername_2_keys_distinct:
  "distinct (map fst (onlineUsers s)) \<Longrightarrow>
     distinct (map fst (onlineUsers (fst (setUsername_2 s sock name))))"
  by (simp add: setUsername_2_registry Map_set_distinct)

lemma disconnect_2_keys_distinct:
  "distinct (map fst (onlineUsers s)) \<Longrightarrow>
     distinct (map fst (onlineUsers (fst (disconnect_2 s sock))))"
  by (auto simp: disconnect_2_def User_findOneAndUpdate_def Let_def Map_delete_distinct
      split: option.splits)

lemma Map_get_entry: "Map_get r k = Some v \<Longrightarrow> (k, v) \<in> set r"
  by (simp add: Map_get_def map_of_SomeD)

text \<open>
  C5, as the code has it. When a socket that holds a non-empty label in \<open>onlineUsers\<close>
  closes and the database is in reach, its entry is deleted, the remaining labels are
  sent to every open socket, and the status of the user of that name is set to offline:
  the handler does not look for other entries with the same label.
\<close>

theorem disconnect_2_claimed:
  assumes "Map_get (onlineUsers s) sock = Some name" and "name \<noteq> []" and "db_up (db s)"
  shows "onlineUsers (fst (disconnect_2 s sock)) = Map_delete (onlineUsers s) sock
       \<and> Map_get (onlineUsers (fst (disconnect_2 s sock))) sock = None
       \<and> users (db (fst (disconnect_2 s sock))) =
           updateOne (\<lambda>u. username u = name) (\<lambda>u. u\<lparr>status := ''offline''\<rparr>) (users (db s))
       \<and> snd (disconnect_2 s sock) =
           map (\<lambda>k. Emit (socket_id k)
                  (OnlineUsers (Map_values (Map_delete (onlineUsers s) sock)))) (sockets s)
           @ [ConsoleLog (''User disconnected: '' @ sock)]"
  using assms
  by (simp add: disconnect_2_def User_findOneAndUpdate_up Let_def io_emit_def Map_get_delete)

theorem disconnect_2_claimed_witness:
  "onlineUsers (fst (disconnect_2 two_alice ''s1'')) = [(''s2'', ''alice'')]
   \<and> Map_get (onlineUsers (fst (disconnect_2 two_alice ''s1''))) ''s1'' = None
   \<and> users (db (fst (disconnect_2 two_alice ''s1''))) =
        [alice_user\<lparr>status := ''offline''\<rparr>, bob_user]
   \<and> snd (disconnect_2 two_alice ''s1'') =
        [Emit ''s2'' (OnlineUsers [''alice'']), ConsoleLog ''User disconnected: s1'']"
  using disconnect_2_claimed [of two_alice "''s1''" "''alice''"]
  by (simp add: two_alice_def ex_db_def alice_user_def bob_user_def
      Map_get_def Map_delete_def Map_values_def)

text \<open>
  C5 as stated does not hold: s1 and s2 both hold alice; when s1 closes, s2 still holds
  the label and alice's status goes from online to offline.
\<close>

theorem disconnect_2_offline_counterexample:
  "Map_get (onlineUsers two_alice) ''s1'' = Some ''alice''
   \<and> Map_get (onlineUsers (fst (disconnect_2 two_alice ''s1''))) ''s2'' = Some ''alice''
   \<and> map username (users (db two_alice)) = [''alice'', ''bob'']
   \<and> map status (users (db two_alice)) = [''online'', ''online'']
   \<and> map status (users (db (fst (disconnect_2 two_alice ''s1'')))) = [''offline'', ''online'']"
  by (simp add: disconnect_2_def two_alice_def ex_db_def alice_user_def bob_user_def
      Map_get_def Map_delete_def User_findOneAndUpdate_def Let_def)

text \<open>
  C6, as the code has it. \<open>setUsername\<close> of the second listing does not check the label.
  With the database in reach, any label, the empty one included, is bound to the socket
  in \<open>onlineUsers\<close>, the status of the user of that name is set to online, and the
  labels are sent to every open socket.
\<close>

theorem setUsername_2_any_label:
  assumes "db_up (db s)"
  shows "onlineUsers (fst (setUsername_2 s sock name)) = Map_set (onlineUsers s) sock name
       \<and> Map_get (onlineUsers (fst (setUsername_2 s sock name))) sock = Some name
       \<and> users (db (fst (setUsername_2 s sock name))) =
           updateOne (\<lambda>u. username u = name) (\<lambda>u. u\<lparr>status := ''online''\<rparr>) (users (db s))
       \<and> snd (setUsername_2 s sock name) =
           map (\<lambda>k. Emit (socket_id k)
                  (OnlineUsers (Map_values (Map_set (onlineUsers s) sock name)))) (sockets s)
           @ [ConsoleLog (''Socket '' @ sock @ '' set as '' @ name)]"
  using assms by (simp add: setUsername_2_up Map_get_set)

theorem setUsername_2_any_label_witness:
  "onlineUsers (fst (setUsername_2 ex_server ''s3'' '''')) =
     [(''s1'', ''alice''), (''s2'', ''bob''), (''s3'', '''')]
   \<and> Map_get (onlineUsers (fst (setUsername_2 ex_server ''s3'' ''''))) ''s3'' = Some ''''
   \<and> users (db (fst (setUsername_2 ex_server ''s3'' ''''))) = [alice_user, bob_user]
   \<and> snd (setUsername_2 ex_server ''s3'' '''') =
     [Emit ''s1'' (OnlineUsers [''alice'', ''bob'', '''']),
      Emit ''s2'' (OnlineUsers [''alice'', ''bob'', '''']),
      Emit ''s3'' (OnlineUsers [''alice'', ''bob'', '''']),
      ConsoleLog ''Socket s3 set as '']"
  using setUsername_2_any_label [of ex_server "''s3''" "''''"]
  by (simp add: ex_server_def ex_db_def alice_user_def bob_user_def Map_values_def Map_get_def)

text \<open>
  C6 as stated does not hold: the empty label is not rejected. It enters the map and is
  broadcast with the others.
\<close>

theorem setUsername_2_empty_label_counterexample:
  "onlineUsers (fst (setUsername_2 ex_server ''s3'' '''')) =
     [(''s1'', ''alice''), (''s2'', ''bob''), (''s3'', '''')]
   \<and> snd (setUsername_2 ex_server ''s3'' '''') =
     [Emit ''s1'' (OnlineUsers [''alice'', ''bob'', '''']),
      Emit ''s2'' (OnlineUsers [''alice'', ''bob'', '''']),
      Emit ''s3'' (OnlineUsers [''alice'', ''bob'', '''']),
      ConsoleLog ''Socket s3 set as '']"
  by (simp add: setUsername_2_def ex_server_def ex_db_def User_findOneAndUpdate_def
      Let_def io_emit_def Map_values_def)

text \<open>
  C7. A socket declares a label that another socket holds already: afterwards both
  sockets map to the label, the label stands at least twice among the map's values, and
  these values, duplicates kept, are what the declaration sends to every open socket
  (the database in reach). A socket has one entry at most: keys that were distinct stay
  distinct.
\<close>

theorem same_label_two_connections:
  assumes "c1 \<noteq> c2" and "Map_get (onlineUsers s) c1 = Some name"
  shows "Map_get (onlineUsers (fst (setUsername_2 s c2 name))) c1 = Some name
       \<and> Map_get (onlineUsers (fst (setUsername_2 s c2 name))) c2 = Some name
       \<and> 2 \<le> count_list (Map_values (onlineUsers (fst (setUsername_2 s c2 name)))) name
       \<and> (db_up (db s) \<longrightarrow>
            snd (setUsername_2 s c2 name) =
              map (\<lambda>k. Emit (socket_id k)
                     (OnlineUsers (Map_values (onlineUsers (fst (setUsername_2 s c2 name))))))
                (sockets s)
              @ [ConsoleLog (''Socket '' @ c2 @ '' set as '' @ name)])
       \<and> (distinct (map fst (onlineUsers s)) \<longrightarrow>
            distinct (map fst (onlineUsers (fst (setUsername_2 s c2 name)))))"
proof -
  let ?r = "Map_set (onlineUsers s) c2 name"
  have r: "onlineUsers (fst (setUsername_2 s c2 name)) = ?r"
    by (rule setUsername_2_registry)
  have g1: "Map_get ?r c1 = Some name"
    using assms by (simp add: Map_get_set)
  have g2: "Map_get ?r c2 = Some name"
    by (simp add: Map_get_set)
  have "(c1, name) \<in> set (onlineUsers s)"
    using assms(2) by (rule Map_get_entry)
  then have e1: "(c1, name) \<in> set ?r"
    using assms(1) by (simp add: Map_set_other)
  have e2: "(c2, name) \<in> set ?r"
    by (rule Map_set_self)
  have cnt: "2 \<le> count_list (Map_values ?r) name"
    unfolding Map_values_def
    using e1 e2 assms(1) by (intro two_entries_count [of "(c1, name)" _ "(c2, name)"]) simp_all
  have em: "snd (setUsername_2 s c2 name) =
              map (\<lambda>k. Emit (socket_id k) (OnlineUsers (Map_values ?r))) (sockets s)
              @ [ConsoleLog (''Socket '' @ c2 @ '' set as '' @ name)]" if "db_up (db s)"
    using that by (simp add: setUsername_2_up)
  have d: "distinct (map fst ?r)" if "distinct (map fst (onlineUsers s))"
    using that by (rule Map_set_distinct)
  show ?thesis
    unfolding r using g1 g2 cnt em d by blast
qed

theorem same_label_two_connections_witness:
  "Map_get (onlineUsers (fst (setUsername_2 ex_server ''s3'' ''bob''))) ''s2'' = Some ''bob''
   \<and> Map_get (onlineUsers (fst (setUsername_2 ex_server ''s3'' ''bob''))) ''s3'' = Some ''bob''
   \<and> onlineUsers (fst (setUsername_2 ex_server ''s3'' ''bob''))
     = [(''s1'', ''alice''), (''s2'', ''bob''), (''s3'', ''bob'')]
   \<and> snd (setUsername_2 ex_server ''s3'' ''bob'')
     = [Emit ''s1'' (OnlineUsers [''alice'', ''bob'', ''bob'']),
        Emit ''s2'' (OnlineUsers [''alice'', ''bob'', ''bob'']),
        Emit ''s3'' (OnlineUsers [''alice'', ''bob'', ''bob'']),
        ConsoleLog ''Socket s3 set as bob'']
   \<and> distinct (map fst (onlineUsers (fst (setUsername_2 ex_server ''s3'' ''bob''))))"
  using same_label_two_connections [of "''s2''" "''s3''" ex_server "''bob''"]
  by (simp add: setUsername_2_registry)
     (simp add: ex_server_def ex_db_def Map_values_def Map_get_def)

subsection \<open>The message routes\<close>

lemma insert_desc_mset: "mset (insert_desc m xs) = add_mset m (mset xs)"
  by (induction xs) simp_all

lemma insert_desc_set: "set (insert_desc m xs) = insert m (set xs)"
  using insert_desc_mset [of m xs] by (metis set_mset_add_mset_insert set_mset_mset)

lemma insert_desc_latest_first:
  "latest_first xs \<Longrightarrow> latest_first (insert_desc m xs)"
  unfolding latest_first_def
proof (induction xs)
  case Nil
  then show ?case by simp
next
  case (Cons x xs)
  show ?case
  proof (cases "timestamp x \<le> timestamp m")
    case True
    with Cons.prems show ?thesis by (auto intro: order_trans)
  next
    case False
    with Cons show ?thesis by (auto simp: insert_desc_set)
  qed
qed

lemma sort_desc_mset: "mset (sort_desc ms) = mset ms"
  by (induction ms) (simp_all add: sort_desc_def insert_desc_mset)

lemma sort_desc_latest_first: "latest_first (sort_desc ms)"
proof (induction ms)
  case Nil
  show ?case by (simp add: sort_desc_def latest_first_def)
next
  case (Cons m ms)
  then show ?case
    using insert_desc_latest_first [of "sort_desc ms" m] by (simp add: sort_desc_def)
qed

lemma matches_truthy:
  "matches \<lparr>filter_sender = (if truthy qs then qs else None),
            filter_receiver = (if truthy qr then qr else None)\<rparr>
     = (\<lambda>m. (truthy qs \<longrightarrow> sender m = qs) \<and> (truthy qr \<longrightarrow> receiver m = qr))"
  by (rule ext, cases qs; cases qr) (auto simp: matches_def)

text \<open>
  C9. \<open>GET /messages\<close> with the database in reach answers 200 with the stored messages
  that agree with every parameter given (a parameter that is missing or empty is not
  given; with none given, all messages), each as often as it is stored, latest first.
\<close>

theorem get_messages_filtered_sorted:
  assumes "db_up d"
  shows "\<exists>ms. get_messages d q_sender q_receiver = (MessagesJson 200 ms, [])
           \<and> mset ms = mset (filter (\<lambda>m. (truthy q_sender \<longrightarrow> sender m = q_sender)
                                        \<and> (truthy q_receiver \<longrightarrow> receiver m = q_receiver))
                                (messages d))
           \<and> sorted_wrt (\<lambda>a b. timestamp b \<le> timestamp a) ms"
proof -
  let ?flt = "\<lparr>filter_sender = (if truthy q_sender then q_sender else None),
               filter_receiver = (if truthy q_receiver then q_receiver else None)\<rparr>"
  let ?ms = "sort_desc (filter (matches ?flt) (messages d))"
  have "get_messages d q_sender q_receiver = (MessagesJson 200 ?ms, [])"
    using assms by (simp add: get_messages_def Message_find_sorted_def Let_def)
  moreover have "mset ?ms = mset (filter (\<lambda>m. (truthy q_sender \<longrightarrow> sender m = q_sender)
                                        \<and> (truthy q_receiver \<longrightarrow> receiver m = q_receiver))
                                (messages d))"
    by (simp only: sort_desc_mset matches_truthy)
  moreover have "sorted_wrt (\<lambda>a b. timestamp b \<le> timestamp a) ?ms"
    using sort_desc_latest_first by (simp add: latest_first_def)
  ultimately show ?thesis by blast
qed

theorem get_messages_filtered_sorted_witness:
  "get_messages ex_db3 (Some ''alice'') None = (MessagesJson 200 [third_message, first_message], [])
   \<and> get_messages ex_db3 None (Some ''bob'') = (MessagesJson 200 [first_message], [])
   \<and> get_messages ex_db3 None None
       = (MessagesJson 200 [second_message, third_message, first_message], [])"
proof -
  have up: "db_up ex_db3" by (simp add: ex_db3_def)
  have a: "get_messages ex_db3 (Some ''alice'') None = (MessagesJson 200 [third_message, first_message], [])"
    using get_messages_filtered_sorted [OF up, of "Some ''alice''" None]
    by (simp add: get_messages_def Message_find_sorted_def Let_def ex_db3_def
        first_message_def second_message_def third_message_def sort_desc_def matches_def)
  have b: "get_messages ex_db3 None (Some ''bob'') = (MessagesJson 200 [first_message], [])"
    by (simp add: get_messages_def Message_find_sorted_def Let_def ex_db3_def
        first_message_def second_message_def third_message_def sort_desc_def matches_def)
  have c: "get_messages ex_db3 None None
       = (MessagesJson 200 [second_message, third_message, first_message], [])"
    by (simp add: get_messages_def Message_find_sorted_def Let_def ex_db3_def
        first_message_def second_message_def third_message_def sort_desc_def matches_def)
  from a b c show ?thesis by simp
qed

text \<open>
  C10. \<open>POST /messages\<close> with a sender and with missing or empty content, the database
  in reach: the answer is 201 with a new document that is appended to the collection,
  \<open>isDelivered = True\<close>, \<open>isRead = False\<close>, its content the missing or empty one of
  the request. The same payload sent as a \<open>sendMessage\<close> event fails with
  \<open>InvalidPayload\<close>.
\<close>

theorem post_messages_no_content_check:
  assumes "truthy (sender body)" and "\<not> truthy (content body)" and "db_up d"
  shows "\<exists>m. post_messages d now body =
               ((MessageJson 201 m, []),
                d\<lparr>messages := messages d @ [m], next_oid := Suc (next_oid d)\<rparr>)
           \<and> sender m = sender body \<and> receiver m = receiver body \<and> content m = content body
           \<and> isDelivered m \<and> \<not> isRead m \<and> timestamp m = now \<and> msg_id m = next_oid d
           \<and> sendMessage s now body = (s, [ConsoleError ''Error saving message:'' InvalidPayload])"
  using assms
  by (simp add: post_messages_def Message_insert_def Message_validate_def Message_new_def
      sendMessage_def Let_def)

theorem post_messages_no_content_check_witness:
  "post_messages ex_db 20 \<lparr>sender = Some ''alice'', receiver = Some ''bob'', content = None\<rparr> =
     ((MessageJson 201
         \<lparr>sender = Some ''alice'', receiver = Some ''bob'', content = None,
          msg_id = 1, timestamp = 20, isDelivered = True, isRead = False\<rparr>, []),
      ex_db\<lparr>messages := [first_message,
         \<lparr>sender = Some ''alice'', receiver = Some ''bob'', content = None,
          msg_id = 1, timestamp = 20, isDelivered = True, isRead = False\<rparr>],
        next_oid := 2\<rparr>)
   \<and> sendMessage ex_server 20 \<lparr>sender = Some ''alice'', receiver = Some ''bob'', content = None\<rparr>
       = (ex_server, [ConsoleError ''Error saving message:'' InvalidPayload])"
  using post_messages_no_content_check
          [of "\<lparr>sender = Some ''alice'', receiver = Some ''bob'', content = None\<rparr>" ex_db 20 ex_server]
  by (simp add: ex_db_def post_messages_def Message_insert_def Message_validate_def
      Message_new_def Let_def)

subsection \<open>Persistence before broadcast; stored messages are valid\<close>

lemma updateOne_list_all:
  "list_all Q xs \<Longrightarrow> (\<And>x. Q x \<Longrightarrow> Q (f x)) \<Longrightarrow> list_all Q (updateOne P f xs)"
  by (induction xs) auto

lemma Message_insert_valid:
  "valid_store d \<Longrightarrow> Message_insert d m = Inr d' \<Longrightarrow> valid_store d'"
  by (auto simp: Message_insert_def valid_store_def split: if_splits)

lemma sendMessage_valid_store:
  "valid_store (db s) \<Longrightarrow> valid_store (db (fst (sendMessage s now m)))"
  by (auto simp: sendMessage_def Message_create_def Let_def
      split: sum.splits dest: Message_insert_valid)

lemma post_messages_valid_store:
  "valid_store d \<Longrightarrow> valid_store (snd (post_messages d now body))"
  by (auto simp: post_messages_def Let_def split: sum.splits dest: Message_insert_valid)

lemma markAsRead_valid_store:
  "valid_store (db s) \<Longrightarrow> valid_store (db (fst (markAsRead s i)))"
  by (auto simp: markAsRead_def Message_findById_def Message_save_def Let_def valid_store_def
      Message_validate_def split: option.splits intro!: updateOne_list_all)

lemma valid_store_found:
  "valid_store d \<Longrightarrow> find (\<lambda>x. msg_id x = i) (messages d) = Some msg \<Longrightarrow> truthy (sender msg)"
  by (auto simp: valid_store_def Message_validate_def find_Some_iff list_all_iff)

lemma sendMessage_persistence_failure:
  "truthy (sender m) \<Longrightarrow> truthy (content m) \<Longrightarrow> \<not> db_up (db s) \<Longrightarrow>
     sendMessage s now m = (s, [ConsoleError ''Error saving message:'' PersistenceFailure])"
  by (simp add: sendMessage_def Message_create_def Message_insert_def Message_validate_def
      Message_new_def Let_def)

lemma markAsRead_persistence_failure:
  "\<not> db_up (db s) \<Longrightarrow>
     markAsRead s i = (s, [ConsoleError ''Error marking message as read:'' PersistenceFailure])"
  by (simp add: markAsRead_def Message_findById_def)

lemma sendMessage_emit_after_insert:
  assumes "Emit k ev \<in> set (snd (sendMessage s now m))"
  shows "db_up (db s) \<and> messages (db (fst (sendMessage s now m)))
           = messages (db s) @ [savedMessage s now m]
         \<and> ev = ReceiveMessage (savedMessage s now m)"
proof -
  have v: "truthy (sender m) \<and> truthy (content m)"
  proof (rule ccontr)
    assume "\<not> (truthy (sender m) \<and> truthy (content m))"
    then have "\<not> truthy (sender m) \<or> \<not> truthy (content m)" by simp
    then have "snd (sendMessage s now m) = [ConsoleError ''Error saving message:'' InvalidPayload]"
      by (simp add: sendMessage_invalid)
    with assms show False by simp
  qed
  have u: "db_up (db s)"
  proof (rule ccontr)
    assume "\<not> db_up (db s)"
    then have "snd (sendMessage s now m) = [ConsoleError ''Error saving message:'' PersistenceFailure]"
      using v by (simp add: sendMessage_persistence_failure)
    with assms show False by simp
  qed
  show ?thesis
    using assms v u
    by (auto simp: sendMessage_valid_state sendMessage_valid_effects io_emit_def
        split: if_splits option.splits)
qed

lemma markAsRead_emit_after_save:
  assumes "Emit k ev \<in> set (snd (markAsRead s i))"
  shows "db_up (db s) \<and> ev = UpdateMessageStatus i True
         \<and> (\<exists>msg. find (\<lambda>x. msg_id x = i) (messages (db (fst (markAsRead s i))))
                     = Some msg \<and> isRead msg)"
proof -
  have u: "db_up (db s)"
  proof (rule ccontr)
    assume "\<not> db_up (db s)"
    then have "snd (markAsRead s i) = [ConsoleError ''Error marking message as read:'' PersistenceFailure]"
      by (simp add: markAsRead_persistence_failure)
    with assms show False by simp
  qed
  have "find (\<lambda>x. msg_id x = i) (messages (db s)) \<noteq> None"
  proof
    assume "find (\<lambda>x. msg_id x = i) (messages (db s)) = None"
    then have "snd (markAsRead s i) = []"
      using u by (simp add: markAsRead_absent)
    with assms show False by simp
  qed
  then obtain msg where f: "find (\<lambda>x. msg_id x = i) (messages (db s)) = Some msg"
    by blast
  have v: "truthy (sender msg)"
    using assms u f
    by (auto simp: markAsRead_def Message_findById_def Message_save_def Message_validate_def
        Let_def split: if_splits)
  note m = markAsRead_found [OF f u v]
  have "find (\<lambda>x. msg_id x = i) (messages (db (fst (markAsRead s i)))) = Some (msg\<lparr>isRead := True\<rparr>)"
    using f find_msg_id [OF f] by (simp add: m find_updateOne)
  then show ?thesis
    using assms u by (auto simp: m io_emit_def)
qed

lemma setUsername_2_emit_after_update:
  assumes "Emit k ev \<in> set (snd (setUsername_2 s sock name))"
  shows "db_up (db s)"
  using assms
  by (auto simp: setUsername_2_def User_findOneAndUpdate_def Let_def split: if_splits)

lemma setUsername_2_down:
  "\<not> db_up (db s) \<Longrightarrow>
     setUsername_2 s sock name =
       (s\<lparr>onlineUsers := Map_set (onlineUsers s) sock name\<rparr>, [UnhandledRejection PersistenceFailure])"
  by (simp add: setUsername_2_def User_findOneAndUpdate_def Let_def)

text \<open>
  C8. \<open>sendMessage\<close> and \<open>markAsRead\<close> emit only after the write went through
  (\<open>sendMessage_emit_after_insert\<close>, \<open>markAsRead_emit_after_save\<close>), and a failed write
  is written to the console and nothing is emitted (\<open>sendMessage_persistence_failure\<close>,
  \<open>markAsRead_persistence_failure\<close>). \<open>setUsername\<close> of the second listing emits only
  after the status update too, but with the database out of reach the failure is not
  logged: the handler has changed \<open>onlineUsers\<close> already and its promise rejects with
  nothing to catch it.
\<close>

theorem setUsername_2_unlogged_failure:
  "setUsername_2 ex_server_down ''s3'' ''carol'' =
     (ex_server_down\<lparr>onlineUsers := [(''s1'', ''alice''), (''s2'', ''bob''), (''s3'', ''carol'')]\<rparr>,
      [UnhandledRejection PersistenceFailure])"
  by (simp add: setUsername_2_def ex_server_down_def ex_server_def ex_db_def
      User_findOneAndUpdate_def Let_def)

end
